theory Spec2Isabelle
  imports Main "HOL-Library.AList"
begin

section \<open>Task API: a shallow embedding of \<open>main.py\<close>\<close>

text \<open>
  The program is a set of HTTP handlers over two external services: an identity
  provider and a document store holding one collection, \<open>tasks\<close>.  The handlers are
  embedded as functions that take the collection and return the response together
  with the collection after the request.  An exception raised by a handler is the
  left summand of the response.
\<close>

subsection \<open>Python values, dictionaries and exceptions\<close>

datatype pyval = PStr string | PBool bool | PNone

text \<open>A stored document is a dictionary from field names to values.\<close>

type_synonym document = "string \<rightharpoonup> pyval"

text \<open>
  The collection \<open>tasks\<close>: document ids with their documents, in the order in which the
  store enumerates them.  Lookups read the first entry of an id.
\<close>

type_synonym collection = "(string \<times> document) list"

text \<open>
  \<open>HTTPException\<close> is the only exception the handlers raise themselves.  A \<open>KeyError\<close>
  comes from subscripting a dictionary at a missing key; a \<open>ValueError\<close> comes from
  the store's client when it refuses its argument; \<open>RequestValidationError\<close> is
  what the framework raises when a request body does not validate against the
  handler's parameter type, before the handler is entered.
\<close>

datatype exn =
    HTTPException (status_code: nat) (detail: string)
  | KeyError string
  | ValueError string
  | RequestValidationError

text \<open>
  The status line of a response: a returned value is sent with 200, an
  \<open>HTTPException\<close> with its own status code, a request that fails validation with
  422, any other exception with 500.
\<close>

fun http_status :: "exn + 'a \<Rightarrow> nat" where
  "http_status (Inr r) = 200"
| "http_status (Inl (HTTPException c d)) = c"
| "http_status (Inl (KeyError k)) = 500"
| "http_status (Inl (ValueError m)) = 500"
| "http_status (Inl RequestValidationError) = 422"

subsection \<open>The request and response models (lines 42--76)\<close>

record Task =
  title :: string
  description :: string
  completed :: bool

record UserRegistration =
  email :: string
  password :: string

record TaskUpdate =
  title :: "string option"
  description :: "string option"
  completed :: "bool option"

record RegResModel =
  message :: "string option"
  user_uid :: "string option"

record GeneralResModel =
  message :: "string option"
  task_id :: "string option"

text \<open>\<open>task.dict()\<close> of a \<open>Task\<close>: the three fields, in declaration order.\<close>

definition Task_dict :: "Task \<Rightarrow> (string \<times> pyval) list" where
  "Task_dict task =
     [(''title'', PStr (Task.title task)),
      (''description'', PStr (Task.description task)),
      (''completed'', PBool (Task.completed task))]"

text \<open>
  \<open>task.dict()\<close> of a \<open>TaskUpdate\<close>: all three keys are present, an unset field with
  the value \<open>None\<close>.
\<close>

definition TaskUpdate_dict :: "TaskUpdate \<Rightarrow> (string \<times> pyval) list" where
  "TaskUpdate_dict task =
     [(''title'', case TaskUpdate.title task of None \<Rightarrow> PNone | Some s \<Rightarrow> PStr s),
      (''description'', case TaskUpdate.description task of None \<Rightarrow> PNone | Some s \<Rightarrow> PStr s),
      (''completed'', case TaskUpdate.completed task of None \<Rightarrow> PNone | Some b \<Rightarrow> PBool b)]"

text \<open>
  A JSON body for \<open>TaskUpdate\<close> before it is parsed: each key is absent, present with
  \<open>null\<close>, or present with a value.  Every field of \<open>TaskUpdate\<close> is declared
  \<open>Optional[...] = None\<close>, so an absent key takes the default \<open>None\<close> and a \<open>null\<close>
  is \<open>None\<close> as well.
\<close>

datatype 'a json_field = Absent | Null | Given 'a

record TaskUpdate_body =
  body_title :: "string json_field"
  body_description :: "string json_field"
  body_completed :: "bool json_field"

fun parse_field :: "'a json_field \<Rightarrow> 'a option" where
  "parse_field Absent = None"
| "parse_field Null = None"
| "parse_field (Given v) = Some v"

definition TaskUpdate_parse :: "TaskUpdate_body \<Rightarrow> TaskUpdate" where
  "TaskUpdate_parse b =
     \<lparr>TaskUpdate.title = parse_field (body_title b),
      TaskUpdate.description = parse_field (body_description b),
      TaskUpdate.completed = parse_field (body_completed b)\<rparr>"

subsection \<open>The document store\<close>

text \<open>
  The document store is an external service, and the client library that reaches it
  is not part of the repository.  Its operations are taken from section 4.2 of the
  specification (Record Store Gateway), except where noted.  The handlers call
  \<open>update\<close> and \<open>delete\<close> only after \<open>get\<close> has found the record.
\<close>

text \<open>
  Modelled from the spec: \<open>get(id)\<close> of the store, missing from the sources; it
  returns the stored record or not-found.
\<close>

definition doc_get :: "collection \<Rightarrow> string \<Rightarrow> document option" where
  "doc_get db tid = map_of db tid"

text \<open>
  Modelled from the spec: \<open>insert\<close> of the store, missing from the sources; it
  persists the given fields under the id of the document reference.
\<close>

definition doc_set :: "string \<Rightarrow> document \<Rightarrow> collection \<Rightarrow> collection" where
  "doc_set tid d db = AList.update tid d db"

text \<open>
  Modelled from the spec: the merge that \<open>update(id, partialFields)\<close> of the store
  performs, missing from the sources; only the provided keys are merged into the
  stored record, and the keys absent from the input are left untouched.
\<close>

definition merge_fields :: "string \<Rightarrow> document \<Rightarrow> collection \<Rightarrow> collection" where
  "merge_fields tid flds db = AList.map_entry tid (\<lambda>d. d ++ flds) db"

text \<open>
  \<open>task_ref.update(field_updates)\<close> of the store's client.  The client refuses an
  empty dictionary: it raises \<open>ValueError\<close> before anything is sent to the store,
  where section 4.2 of the specification has a no-op.  On a dictionary that is not
  empty it performs the merge.
\<close>

definition doc_update ::
  "string \<Rightarrow> (string \<times> pyval) list \<Rightarrow> collection \<Rightarrow> exn + collection" where
  "doc_update tid field_updates db =
     (if field_updates = [] then Inl (ValueError ''Cannot update with an empty document.'')
      else Inr (merge_fields tid (map_of field_updates) db))"

text \<open>
  Modelled from the spec: \<open>delete(id)\<close> of the store, missing from the sources; it
  removes the record.
\<close>

definition doc_delete :: "string \<Rightarrow> collection \<Rightarrow> collection" where
  "doc_delete tid db = AList.delete tid db"

text \<open>
  Modelled from the spec: \<open>listByOwner(ownerId)\<close> of the store, missing from the
  sources; it returns the records whose \<open>user_id\<close> is the given uid, in the store's
  own order.
\<close>

definition where_user_id :: "string \<Rightarrow> collection \<Rightarrow> collection" where
  "where_user_id u db = filter (\<lambda>(k, d). d ''user_id'' = Some (PStr u)) db"

subsection \<open>The identity helpers (lines 82--96)\<close>

text \<open>
  The identity provider is a parameter: \<open>auth_create_user\<close> returns the new uid or
  raises, and \<open>sign_in\<close> returns the provider's user dictionary or raises.  An
  exception of the provider is represented by its text, \<open>str(e)\<close>.
\<close>

definition create_user :: "(string \<Rightarrow> string \<Rightarrow> string + string) \<Rightarrow> string \<Rightarrow> string \<Rightarrow> string + string" where
  "create_user auth_create_user em pw = auth_create_user em pw"

text \<open>
  \<open>authenticate_user\<close>: the whole body is inside \<open>try\<close>, so both an exception of the
  provider and a missing \<open>idToken\<close> key end in \<open>return None\<close>.
\<close>

definition authenticate_user ::
  "(string \<Rightarrow> string \<Rightarrow> string + (string \<rightharpoonup> string)) \<Rightarrow> string \<Rightarrow> string \<Rightarrow> (string \<times> string) list option" where
  "authenticate_user sign_in em pw =
     (case sign_in em pw of
        Inl e \<Rightarrow> None
      | Inr user \<Rightarrow>
          (case user ''idToken'' of
             None \<Rightarrow> None
           | Some tok \<Rightarrow> Some [(''access_token'', tok), (''token_type'', ''bearer'')]))"

subsection \<open>Registration and login (lines 116--131)\<close>

definition register_user ::
  "(string \<Rightarrow> string \<Rightarrow> string + string) \<Rightarrow> UserRegistration \<Rightarrow> exn + RegResModel" where
  "register_user auth_create_user user =
     (case create_user auth_create_user (email user) (password user) of
        Inl e \<Rightarrow> Inl (HTTPException 400 e)
      | Inr uid \<Rightarrow>
          Inr \<lparr>RegResModel.message = Some ''User registered successfully'', user_uid = Some uid\<rparr>)"

text \<open>
  The field \<open>email\<close> of \<open>UserRegistration\<close> has the type \<open>EmailStr\<close>, which the
  framework checks when it builds the handler's argument from the request body.  The
  check is the validator library's; what is fixed here is that an address without an
  \<open>@\<close> is never accepted, and the rest of the decision is the parameter \<open>accepts\<close>.
\<close>

definition EmailStr :: "(string \<Rightarrow> bool) \<Rightarrow> string \<Rightarrow> bool" where
  "EmailStr accepts s = (CHR ''@'' \<in> set s \<and> accepts s)"

text \<open>
  \<open>POST /register\<close>: the body is validated against \<open>UserRegistration\<close>, then
  \<open>register_user\<close> runs.
\<close>

definition post_register ::
  "(string \<Rightarrow> bool) \<Rightarrow> (string \<Rightarrow> string \<Rightarrow> string + string) \<Rightarrow> UserRegistration \<Rightarrow> exn + RegResModel" where
  "post_register accepts auth_create_user body =
     (if EmailStr accepts (email body) then register_user auth_create_user body
      else Inl RequestValidationError)"

text \<open>\<open>login_user\<close>: \<open>if user_id\<close> tests the dictionary for being non-empty.\<close>

definition login_user ::
  "(string \<Rightarrow> string \<Rightarrow> string + (string \<rightharpoonup> string)) \<Rightarrow> string \<Rightarrow> string \<Rightarrow> exn + (string \<times> string) list" where
  "login_user sign_in username pw =
     (case authenticate_user sign_in username pw of
        None \<Rightarrow> Inl (HTTPException 401 ''Login failed'')
      | Some user_id \<Rightarrow>
          if user_id \<noteq> [] then Inr user_id else Inl (HTTPException 401 ''Login failed''))"

subsection \<open>The task handlers (lines 138--206)\<close>

text \<open>
  Every task handler receives the verified identity of the caller; \<open>uid\<close> below is
  \<open>user["uid"]\<close>.  The loop of \<open>get_user_tasks\<close> appends each streamed document,
  extended with its id (\<open>{**task_data, "id": task.id}\<close>), to \<open>task_list\<close>.
\<close>

definition with_id :: "string \<Rightarrow> document \<Rightarrow> document" where
  "with_id tid task_data = task_data(''id'' \<mapsto> PStr tid)"

fun task_loop :: "collection \<Rightarrow> document list \<Rightarrow> document list" where
  "task_loop [] task_list = task_list"
| "task_loop ((tid, task_data) # tasks) task_list =
     task_loop tasks (task_list @ [with_id tid task_data])"

definition get_user_tasks :: "string \<Rightarrow> collection \<Rightarrow> document list" where
  "get_user_tasks uid db = task_loop (where_user_id uid db) []"

text \<open>
  \<open>create_task\<close>: the id of the new document reference is generated by the store's
  client and is the parameter \<open>new_id\<close>.
\<close>

definition create_task ::
  "string \<Rightarrow> Task \<Rightarrow> string \<Rightarrow> collection \<Rightarrow> (exn + GeneralResModel) \<times> collection" where
  "create_task new_id task uid db =
     (Inr \<lparr>GeneralResModel.message = Some ''Task created successfully'', task_id = Some new_id\<rparr>,
      doc_set new_id ((map_of (Task_dict task))(''user_id'' \<mapsto> PStr uid)) db)"

text \<open>
  \<open>data_to_update\<close>: the items of \<open>task.dict()\<close> whose value is not \<open>None\<close>.
\<close>

definition data_to_update :: "TaskUpdate \<Rightarrow> (string \<times> pyval) list" where
  "data_to_update task = filter (\<lambda>(k, v). v \<noteq> PNone) (TaskUpdate_dict task)"

definition update_task ::
  "string \<Rightarrow> TaskUpdate \<Rightarrow> string \<Rightarrow> collection \<Rightarrow> (exn + GeneralResModel) \<times> collection" where
  "update_task tid task uid db =
     (case doc_get db tid of
        None \<Rightarrow> (Inl (HTTPException 404 ''Task not found''), db)
      | Some task_data \<Rightarrow>
          (case task_data ''user_id'' of
             None \<Rightarrow> (Inl (KeyError ''user_id''), db)
           | Some owner \<Rightarrow>
               if owner \<noteq> PStr uid then (Inl (HTTPException 403 ''Access forbidden''), db)
               else
                 (case doc_update tid (data_to_update task) db of
                    Inl e \<Rightarrow> (Inl e, db)
                  | Inr db' \<Rightarrow>
                      (Inr \<lparr>GeneralResModel.message = Some ''Task updated successfully'',
                            task_id = Some tid\<rparr>,
                       db'))))"

definition delete_task ::
  "string \<Rightarrow> string \<Rightarrow> collection \<Rightarrow> (exn + GeneralResModel) \<times> collection" where
  "delete_task tid uid db =
     (case doc_get db tid of
        None \<Rightarrow> (Inl (HTTPException 404 ''Task not found''), db)
      | Some task_data \<Rightarrow>
          (case task_data ''user_id'' of
             None \<Rightarrow> (Inl (KeyError ''user_id''), db)
           | Some owner \<Rightarrow>
               if owner \<noteq> PStr uid then (Inl (HTTPException 403 ''Access forbidden''), db)
               else
                 (Inr \<lparr>GeneralResModel.message = Some ''Task deleted successfully'',
                       task_id = Some tid\<rparr>,
                  doc_delete tid db)))"

definition complete_task ::
  "string \<Rightarrow> string \<Rightarrow> collection \<Rightarrow> (exn + GeneralResModel) \<times> collection" where
  "complete_task tid uid db =
     (case doc_get db tid of
        None \<Rightarrow> (Inl (HTTPException 404 ''Task not found''), db)
      | Some task_data \<Rightarrow>
          (case task_data ''user_id'' of
             None \<Rightarrow> (Inl (KeyError ''user_id''), db)
           | Some owner \<Rightarrow>
               if owner \<noteq> PStr uid then (Inl (HTTPException 403 ''Access forbidden''), db)
               else
                 (case doc_update tid [(''completed'', PBool True)] db of
                    Inl e \<Rightarrow> (Inl e, db)
                  | Inr db' \<Rightarrow>
                      (Inr \<lparr>GeneralResModel.message = Some ''Task completed successfully'',
                            task_id = Some tid\<rparr>,
                       db'))))"

subsection \<open>Sequences of requests\<close>

text \<open>
  A request that mutates an existing record, with the caller that sends it, and the
  collection after a sequence of such requests.
\<close>

datatype request =
    Update string TaskUpdate string
  | Complete string string

fun handle :: "request \<Rightarrow> collection \<Rightarrow> collection" where
  "handle (Update tid task uid) db = snd (update_task tid task uid db)"
| "handle (Complete tid uid) db = snd (complete_task tid uid db)"

fun run :: "request list \<Rightarrow> collection \<Rightarrow> collection" where
  "run [] db = db"
| "run (r # rs) db = run rs (handle r db)"

text \<open>The value of a field of the record stored under an id, if there is one.\<close>

definition field_of :: "collection \<Rightarrow> string \<Rightarrow> string \<Rightarrow> pyval option" where
  "field_of db tid k = (case doc_get db tid of None \<Rightarrow> None | Some d \<Rightarrow> d k)"

subsection \<open>Example data\<close>

definition alice_task :: document where
  "alice_task = map_of [(''title'', PStr ''A''), (''description'', PStr ''B''),
                        (''completed'', PBool False), (''user_id'', PStr ''u1'')]"

definition bob_task :: document where
  "bob_task = map_of [(''title'', PStr ''C''), (''description'', PStr ''D''),
                      (''completed'', PBool True), (''user_id'', PStr ''u2'')]"

definition example_task :: Task where
  "example_task = \<lparr>Task.title = ''G'', Task.description = ''H'', Task.completed = False\<rparr>"

definition example_db :: collection where
  "example_db = [(''t1'', alice_task), (''t2'', bob_task)]"

definition only_completed :: TaskUpdate where
  "only_completed =
     \<lparr>TaskUpdate.title = None, TaskUpdate.description = None, TaskUpdate.completed = Some True\<rparr>"

definition empty_update :: TaskUpdate where
  "empty_update =
     \<lparr>TaskUpdate.title = None, TaskUpdate.description = None, TaskUpdate.completed = None\<rparr>"

definition retitle :: TaskUpdate where
  "retitle =
     \<lparr>TaskUpdate.title = Some ''E'', TaskUpdate.description = None, TaskUpdate.completed = None\<rparr>"

definition null_title_body :: TaskUpdate_body where
  "null_title_body =
     \<lparr>body_title = Null, body_description = Given ''F'', body_completed = Absent\<rparr>"

text \<open>
  A provider with one account: it rejects an unknown address and a wrong password
  with different errors.
\<close>

definition example_sign_in :: "string \<Rightarrow> string \<Rightarrow> string + (string \<rightharpoonup> string)" where
  "example_sign_in em pw =
     (if em \<noteq> ''a@b.c'' then Inl ''EMAIL_NOT_FOUND''
      else if pw \<noteq> ''secret1'' then Inl ''INVALID_PASSWORD''
      else Inr (map_of [(''idToken'', ''tok1''), (''localId'', ''u1'')]))"

definition example_create_user :: "string \<Rightarrow> string \<Rightarrow> string + string" where
  "example_create_user em pw =
     (if em = ''a@b.c'' then Inl ''EMAIL_EXISTS''
      else if length pw < 6 then Inl ''WEAK_PASSWORD''
      else Inr ''u2'')"

definition any_address :: "string \<Rightarrow> bool" where
  "any_address s = True"

definition malformed_registration :: UserRegistration where
  "malformed_registration = \<lparr>email = ''not-an-email'', password = ''secret1''\<rparr>"

definition taken_registration :: UserRegistration where
  "taken_registration = \<lparr>email = ''a@b.c'', password = ''secret1''\<rparr>"


section \<open>Properties\<close>

subsection \<open>The store operations\<close>

lemma doc_get_merge_fields:
  "doc_get (merge_fields tid u db) t =
     (if t = tid then map_option (\<lambda>d. d ++ u) (doc_get db tid) else doc_get db t)"
  by (cases "map_of db tid") (simp_all add: doc_get_def merge_fields_def map_of_map_entry)

lemma keys_merge_fields: "map fst (merge_fields tid u db) = map fst db"
  unfolding merge_fields_def by (induction db) auto

lemma merge_fields_empty: "merge_fields tid Map.empty db = db"
  unfolding merge_fields_def by (induction db) auto

lemma doc_get_doc_delete:
  "doc_get (doc_delete tid db) t = (if t = tid then None else doc_get db t)"
  by (simp add: doc_get_def doc_delete_def delete_conv')

lemma doc_get_doc_set:
  "doc_get (doc_set tid d db) t = (if t = tid then Some d else doc_get db t)"
  by (simp add: doc_get_def doc_set_def update_conv')

subsection \<open>What each handler does to the collection\<close>

lemma map_of_data_to_update:
  "map_of (data_to_update task) k =
     (if k = ''title'' then map_option PStr (TaskUpdate.title task)
      else if k = ''description'' then map_option PStr (TaskUpdate.description task)
      else if k = ''completed'' then map_option PBool (TaskUpdate.completed task)
      else None)"
  by (cases "TaskUpdate.title task"; cases "TaskUpdate.description task";
      cases "TaskUpdate.completed task")
     (simp_all add: data_to_update_def TaskUpdate_dict_def)

lemma update_task_snd:
  "snd (update_task tid task uid db) =
     (if field_of db tid ''user_id'' = Some (PStr uid)
      then merge_fields tid (map_of (data_to_update task)) db else db)"
  by (auto simp: update_task_def field_of_def doc_update_def merge_fields_empty
      split: option.splits)

lemma complete_task_snd:
  "snd (complete_task tid uid db) =
     (if field_of db tid ''user_id'' = Some (PStr uid)
      then merge_fields tid (map_of [(''completed'', PBool True)]) db else db)"
  by (auto simp: complete_task_def field_of_def doc_update_def split: option.splits)

lemma delete_task_snd:
  "snd (delete_task tid uid db) =
     (if field_of db tid ''user_id'' = Some (PStr uid) then doc_delete tid db else db)"
  by (auto simp: delete_task_def field_of_def split: option.splits)

lemma field_of_merge_fields:
  "field_of (merge_fields tid u db) t k =
     (if t = tid \<and> doc_get db tid \<noteq> None \<and> u k \<noteq> None then u k else field_of db t k)"
  by (auto simp: field_of_def doc_get_merge_fields map_add_def split: option.splits)


subsection \<open>The three outcomes of the guard\<close>

lemma guard_missing:
  assumes "doc_get db tid = None"
  shows "update_task tid task uid db = (Inl (HTTPException 404 ''Task not found''), db)"
    and "delete_task tid uid db = (Inl (HTTPException 404 ''Task not found''), db)"
    and "complete_task tid uid db = (Inl (HTTPException 404 ''Task not found''), db)"
  using assms by (simp_all add: update_task_def delete_task_def complete_task_def)

lemma guard_foreign:
  assumes "doc_get db tid = Some d" and "d ''user_id'' = Some owner" and "owner \<noteq> PStr uid"
  shows "update_task tid task uid db = (Inl (HTTPException 403 ''Access forbidden''), db)"
    and "delete_task tid uid db = (Inl (HTTPException 403 ''Access forbidden''), db)"
    and "complete_task tid uid db = (Inl (HTTPException 403 ''Access forbidden''), db)"
  using assms by (simp_all add: update_task_def delete_task_def complete_task_def)

lemma guard_owner:
  assumes "doc_get db tid = Some d" and "d ''user_id'' = Some (PStr uid)"
  shows "update_task tid task uid db =
           (if data_to_update task = []
            then (Inl (ValueError ''Cannot update with an empty document.''), db)
            else (Inr \<lparr>GeneralResModel.message = Some ''Task updated successfully'',
                       task_id = Some tid\<rparr>,
                  merge_fields tid (map_of (data_to_update task)) db))"
    and "delete_task tid uid db =
           (Inr \<lparr>GeneralResModel.message = Some ''Task deleted successfully'', task_id = Some tid\<rparr>,
            doc_delete tid db)"
    and "complete_task tid uid db =
           (Inr \<lparr>GeneralResModel.message = Some ''Task completed successfully'', task_id = Some tid\<rparr>,
            merge_fields tid (map_of [(''completed'', PBool True)]) db)"
  using assms
  by (simp_all add: update_task_def delete_task_def complete_task_def doc_update_def)

lemma example_lookups:
  "doc_get example_db ''t1'' = Some alice_task"
  "doc_get example_db ''t2'' = Some bob_task"
  "doc_get example_db ''t9'' = None"
  "alice_task ''user_id'' = Some (PStr ''u1'')"
  "bob_task ''user_id'' = Some (PStr ''u2'')"
  by (simp_all add: doc_get_def example_db_def alice_task_def bob_task_def)

subsection \<open>Existence is checked before ownership\<close>

lemma example_updates:
  "data_to_update retitle = [(''title'', PStr ''E'')]"
  "data_to_update empty_update = []"
  "data_to_update only_completed = [(''completed'', PBool True)]"
  by (simp_all add: data_to_update_def TaskUpdate_dict_def retitle_def empty_update_def
      only_completed_def)

text \<open>
  Claim C1.  In \<open>update_task\<close>, \<open>delete_task\<close> and \<open>complete_task\<close> the existence check
  comes before the ownership check.  For every task id and every authenticated
  caller: if no record has that id, the request fails with 404 (and so never with
  403, whoever the caller is); if the record exists and its \<open>user_id\<close> is not the
  caller's uid, it fails with 403; if the record exists and is the caller's, the
  request proceeds to its write: it answers neither 404 nor 403, \<open>delete_task\<close> and
  \<open>complete_task\<close> answer 200 and write, and \<open>update_task\<close> answers 200 and writes
  when the update has a field to write and otherwise fails in the write itself.
\<close>

theorem existence_before_ownership:
  "(doc_get db tid = None \<longrightarrow>
      fst (update_task tid task uid db) = Inl (HTTPException 404 ''Task not found'') \<and>
      fst (delete_task tid uid db) = Inl (HTTPException 404 ''Task not found'') \<and>
      fst (complete_task tid uid db) = Inl (HTTPException 404 ''Task not found'') \<and>
      http_status (fst (update_task tid task uid db)) \<noteq> 403 \<and>
      http_status (fst (delete_task tid uid db)) \<noteq> 403 \<and>
      http_status (fst (complete_task tid uid db)) \<noteq> 403) \<and>
   (doc_get db tid = Some d \<and> d ''user_id'' = Some owner \<and> owner \<noteq> PStr uid \<longrightarrow>
      fst (update_task tid task uid db) = Inl (HTTPException 403 ''Access forbidden'') \<and>
      fst (delete_task tid uid db) = Inl (HTTPException 403 ''Access forbidden'') \<and>
      fst (complete_task tid uid db) = Inl (HTTPException 403 ''Access forbidden'')) \<and>
   (doc_get db tid = Some d \<and> d ''user_id'' = Some (PStr uid) \<longrightarrow>
      http_status (fst (update_task tid task uid db)) \<noteq> 404 \<and>
      http_status (fst (update_task tid task uid db)) \<noteq> 403 \<and>
      (data_to_update task \<noteq> [] \<longrightarrow>
         http_status (fst (update_task tid task uid db)) = 200 \<and>
         snd (update_task tid task uid db) =
           merge_fields tid (map_of (data_to_update task)) db) \<and>
      (data_to_update task = [] \<longrightarrow>
         fst (update_task tid task uid db) =
           Inl (ValueError ''Cannot update with an empty document.'')) \<and>
      http_status (fst (delete_task tid uid db)) = 200 \<and>
      snd (delete_task tid uid db) = doc_delete tid db \<and>
      http_status (fst (complete_task tid uid db)) = 200 \<and>
      snd (complete_task tid uid db) = merge_fields tid (map_of [(''completed'', PBool True)]) db)"
proof (intro conjI impI)
  assume "doc_get db tid = None"
  note m = guard_missing [OF this]
  show "fst (update_task tid task uid db) = Inl (HTTPException 404 ''Task not found'')"
    and "fst (delete_task tid uid db) = Inl (HTTPException 404 ''Task not found'')"
    and "fst (complete_task tid uid db) = Inl (HTTPException 404 ''Task not found'')"
    and "http_status (fst (update_task tid task uid db)) \<noteq> 403"
    and "http_status (fst (delete_task tid uid db)) \<noteq> 403"
    and "http_status (fst (complete_task tid uid db)) \<noteq> 403"
    by (simp_all add: m)
next
  assume "doc_get db tid = Some d \<and> d ''user_id'' = Some owner \<and> owner \<noteq> PStr uid"
  then have f: "update_task tid task uid db = (Inl (HTTPException 403 ''Access forbidden''), db)"
      "delete_task tid uid db = (Inl (HTTPException 403 ''Access forbidden''), db)"
      "complete_task tid uid db = (Inl (HTTPException 403 ''Access forbidden''), db)"
    by (simp_all add: guard_foreign)
  show "fst (update_task tid task uid db) = Inl (HTTPException 403 ''Access forbidden'')"
    and "fst (delete_task tid uid db) = Inl (HTTPException 403 ''Access forbidden'')"
    and "fst (complete_task tid uid db) = Inl (HTTPException 403 ''Access forbidden'')"
    by (simp_all add: f)
next
  assume "doc_get db tid = Some d \<and> d ''user_id'' = Some (PStr uid)"
  then have o: "doc_get db tid = Some d" "d ''user_id'' = Some (PStr uid)"
    by simp_all
  note g = guard_owner [OF o]
  show "http_status (fst (update_task tid task uid db)) \<noteq> 404"
    and "http_status (fst (update_task tid task uid db)) \<noteq> 403"
    and "http_status (fst (delete_task tid uid db)) = 200"
    and "snd (delete_task tid uid db) = doc_delete tid db"
    and "http_status (fst (complete_task tid uid db)) = 200"
    and "snd (complete_task tid uid db) = merge_fields tid (map_of [(''completed'', PBool True)]) db"
    by (simp_all add: g)
  {
    assume "data_to_update task \<noteq> []"
    then show "http_status (fst (update_task tid task uid db)) = 200"
      and "snd (update_task tid task uid db) = merge_fields tid (map_of (data_to_update task)) db"
      by (simp_all add: g)
  }
  {
    assume "data_to_update task = []"
    then show "fst (update_task tid task uid db) =
        Inl (ValueError ''Cannot update with an empty document.'')"
      by (simp add: g)
  }
qed

theorem existence_before_ownership_witness:
  "doc_get example_db ''t9'' = None \<and>
   fst (delete_task ''t9'' ''u2'' example_db) = Inl (HTTPException 404 ''Task not found'') \<and>
   http_status (fst (update_task ''t9'' retitle ''u2'' example_db)) \<noteq> 403 \<and>
   doc_get example_db ''t1'' = Some alice_task \<and> alice_task ''user_id'' = Some (PStr ''u1'') \<and>
   PStr ''u1'' \<noteq> PStr ''u2'' \<and>
   fst (update_task ''t1'' retitle ''u2'' example_db) = Inl (HTTPException 403 ''Access forbidden'') \<and>
   data_to_update retitle \<noteq> [] \<and>
   http_status (fst (update_task ''t1'' retitle ''u1'' example_db)) = 200 \<and>
   http_status (fst (delete_task ''t1'' ''u1'' example_db)) = 200 \<and>
   http_status (fst (complete_task ''t1'' ''u1'' example_db)) = 200 \<and>
   data_to_update empty_update = [] \<and>
   fst (update_task ''t1'' empty_update ''u1'' example_db) =
     Inl (ValueError ''Cannot update with an empty document.'')"
proof -
  note missing = existence_before_ownership [where db = example_db and tid = "''t9''"
      and uid = "''u2''" and task = retitle]
  note foreign = existence_before_ownership [where db = example_db and tid = "''t1''"
      and d = alice_task and owner = "PStr ''u1''" and uid = "''u2''" and task = retitle]
  note owned = existence_before_ownership [where db = example_db and tid = "''t1''"
      and d = alice_task and uid = "''u1''" and task = retitle]
  note owned_empty = existence_before_ownership [where db = example_db and tid = "''t1''"
      and d = alice_task and uid = "''u1''" and task = empty_update]
  have h1: "doc_get example_db ''t9'' = None"
    and h2: "doc_get example_db ''t1'' = Some alice_task"
    and h3: "alice_task ''user_id'' = Some (PStr ''u1'')"
    by (simp_all add: example_lookups)
  have h4: "PStr ''u1'' \<noteq> PStr ''u2''" by simp
  have h5: "data_to_update retitle \<noteq> []" by (simp add: example_updates)
  have h6: "data_to_update empty_update = []" by (simp add: example_updates)
  from missing h1
  have c1: "fst (delete_task ''t9'' ''u2'' example_db) = Inl (HTTPException 404 ''Task not found'')"
    and c2: "http_status (fst (update_task ''t9'' retitle ''u2'' example_db)) \<noteq> 403"
    by blast+
  from foreign h2 h3 h4
  have c3: "fst (update_task ''t1'' retitle ''u2'' example_db) =
      Inl (HTTPException 403 ''Access forbidden'')"
    by blast
  from owned h2 h3 h5
  have c4: "http_status (fst (update_task ''t1'' retitle ''u1'' example_db)) = 200"
    and c5: "http_status (fst (delete_task ''t1'' ''u1'' example_db)) = 200"
    and c6: "http_status (fst (complete_task ''t1'' ''u1'' example_db)) = 200"
    by blast+
  from owned_empty h2 h3 h6
  have c7: "fst (update_task ''t1'' empty_update ''u1'' example_db) =
      Inl (ValueError ''Cannot update with an empty document.'')"
    by blast
  from h1 c1 c2 h2 h3 h4 c3 h5 c4 c5 c6 h6 c7 show ?thesis by blast
qed

subsection \<open>An error response means no write\<close>

lemma failed_outcome:
  "http_status (fst (update_task tid task uid db)) \<noteq> 200 \<Longrightarrow> snd (update_task tid task uid db) = db"
  "http_status (fst (delete_task tid uid db)) \<noteq> 200 \<Longrightarrow> snd (delete_task tid uid db) = db"
  "http_status (fst (complete_task tid uid db)) \<noteq> 200 \<Longrightarrow> snd (complete_task tid uid db) = db"
  by (auto simp: update_task_def delete_task_def complete_task_def doc_update_def
      split: option.splits if_splits)

text \<open>
  Claim C10.  Whenever \<open>update_task\<close>, \<open>delete_task\<close> or \<open>complete_task\<close> answers 404 or
  403, the collection after the request is the collection before it: both error
  branches are taken before the handler's only write.
\<close>

theorem error_response_no_write:
  "(http_status (fst (update_task tid task uid db)) = 404 \<or>
    http_status (fst (update_task tid task uid db)) = 403 \<longrightarrow>
      snd (update_task tid task uid db) = db) \<and>
   (http_status (fst (delete_task tid uid db)) = 404 \<or>
    http_status (fst (delete_task tid uid db)) = 403 \<longrightarrow>
      snd (delete_task tid uid db) = db) \<and>
   (http_status (fst (complete_task tid uid db)) = 404 \<or>
    http_status (fst (complete_task tid uid db)) = 403 \<longrightarrow>
      snd (complete_task tid uid db) = db)"
proof (intro conjI impI)
  assume "http_status (fst (update_task tid task uid db)) = 404 \<or>
    http_status (fst (update_task tid task uid db)) = 403"
  then have "http_status (fst (update_task tid task uid db)) \<noteq> 200" by auto
  then show "snd (update_task tid task uid db) = db" by (rule failed_outcome)
next
  assume "http_status (fst (delete_task tid uid db)) = 404 \<or>
    http_status (fst (delete_task tid uid db)) = 403"
  then have "http_status (fst (delete_task tid uid db)) \<noteq> 200" by auto
  then show "snd (delete_task tid uid db) = db" by (rule failed_outcome)
next
  assume "http_status (fst (complete_task tid uid db)) = 404 \<or>
    http_status (fst (complete_task tid uid db)) = 403"
  then have "http_status (fst (complete_task tid uid db)) \<noteq> 200" by auto
  then show "snd (complete_task tid uid db) = db" by (rule failed_outcome)
qed

lemma example_statuses:
  "http_status (fst (update_task ''t9'' retitle ''u2'' example_db)) = 404"
  "http_status (fst (update_task ''t1'' retitle ''u2'' example_db)) = 403"
  "http_status (fst (delete_task ''t9'' ''u2'' example_db)) = 404"
  "http_status (fst (delete_task ''t1'' ''u2'' example_db)) = 403"
  "http_status (fst (complete_task ''t9'' ''u2'' example_db)) = 404"
  "http_status (fst (complete_task ''t1'' ''u2'' example_db)) = 403"
  by (simp_all add: guard_missing guard_foreign [where d = alice_task and owner = "PStr ''u1''"]
      example_lookups)

theorem error_response_no_write_witness:
  "http_status (fst (update_task ''t9'' retitle ''u2'' example_db)) = 404 \<and>
   snd (update_task ''t9'' retitle ''u2'' example_db) = example_db \<and>
   http_status (fst (delete_task ''t1'' ''u2'' example_db)) = 403 \<and>
   snd (delete_task ''t1'' ''u2'' example_db) = example_db \<and>
   http_status (fst (complete_task ''t1'' ''u2'' example_db)) = 403 \<and>
   snd (complete_task ''t1'' ''u2'' example_db) = example_db \<and>
   snd (update_task ''t1'' retitle ''u2'' example_db) = example_db \<and>
   snd (delete_task ''t9'' ''u2'' example_db) = example_db \<and>
   snd (complete_task ''t9'' ''u2'' example_db) = example_db"
  using error_response_no_write [where db = example_db and tid = "''t9''" and uid = "''u2''"
      and task = retitle]
    error_response_no_write [where db = example_db and tid = "''t1''" and uid = "''u2''"
      and task = retitle]
  by (simp add: example_statuses)

subsection \<open>Deleting a task twice\<close>

text \<open>
  Claim C6.  When the owner deletes one of their tasks twice, the first request
  answers 200 and removes the record, and the second request for the same id answers
  404 and changes nothing: deleting a missing record is an error, not a silent no-op.
\<close>

theorem delete_twice:
  "doc_get db tid = Some d \<and> d ''user_id'' = Some (PStr uid) \<longrightarrow>
     http_status (fst (delete_task tid uid db)) = 200 \<and>
     doc_get (snd (delete_task tid uid db)) tid = None \<and>
     fst (delete_task tid uid (snd (delete_task tid uid db))) =
       Inl (HTTPException 404 ''Task not found'') \<and>
     http_status (fst (delete_task tid uid (snd (delete_task tid uid db)))) = 404 \<and>
     snd (delete_task tid uid (snd (delete_task tid uid db))) = snd (delete_task tid uid db)"
proof
  assume "doc_get db tid = Some d \<and> d ''user_id'' = Some (PStr uid)"
  then have o: "doc_get db tid = Some d" "d ''user_id'' = Some (PStr uid)" by simp_all
  have first: "delete_task tid uid db =
      (Inr \<lparr>GeneralResModel.message = Some ''Task deleted successfully'', task_id = Some tid\<rparr>,
       doc_delete tid db)"
    by (rule guard_owner(2) [OF o])
  have gone: "doc_get (doc_delete tid db) tid = None"
    by (simp add: doc_get_doc_delete)
  have second: "delete_task tid uid (doc_delete tid db) =
      (Inl (HTTPException 404 ''Task not found''), doc_delete tid db)"
    by (rule guard_missing [OF gone])
  show "http_status (fst (delete_task tid uid db)) = 200 \<and>
     doc_get (snd (delete_task tid uid db)) tid = None \<and>
     fst (delete_task tid uid (snd (delete_task tid uid db))) =
       Inl (HTTPException 404 ''Task not found'') \<and>
     http_status (fst (delete_task tid uid (snd (delete_task tid uid db)))) = 404 \<and>
     snd (delete_task tid uid (snd (delete_task tid uid db))) = snd (delete_task tid uid db)"
    by (simp add: first gone second)
qed

theorem delete_twice_witness:
  "doc_get example_db ''t1'' = Some alice_task \<and> alice_task ''user_id'' = Some (PStr ''u1'') \<and>
   http_status (fst (delete_task ''t1'' ''u1'' example_db)) = 200 \<and>
   doc_get (snd (delete_task ''t1'' ''u1'' example_db)) ''t1'' = None \<and>
   http_status (fst (delete_task ''t1'' ''u1'' (snd (delete_task ''t1'' ''u1'' example_db)))) = 404"
  using delete_twice [where db = example_db and tid = "''t1''" and d = alice_task and uid = "''u1''"]
  by (simp add: example_lookups)

subsection \<open>Partial updates\<close>

lemma merge_fields_other_records:
  "t \<noteq> tid \<Longrightarrow> doc_get (merge_fields tid u db) t = doc_get db t"
  by (simp add: doc_get_merge_fields)

lemma field_of_update_task:
  assumes "doc_get db tid = Some d" and "d ''user_id'' = Some (PStr uid)"
  shows "field_of (snd (update_task tid task uid db)) tid k =
           (case map_of (data_to_update task) k of None \<Rightarrow> d k | Some v \<Rightarrow> Some v)"
proof -
  have "field_of db tid ''user_id'' = Some (PStr uid)"
    using assms by (simp add: field_of_def)
  then show ?thesis
    using assms
    by (simp add: update_task_snd field_of_def doc_get_merge_fields map_add_def)
qed

text \<open>
  The frame of \<open>update_task\<close>.  For every stored task and every partial update sent
  by its owner, each field that the input supplies has the supplied value afterwards,
  and every other field of the record, every other record and the order of the
  collection are unchanged; the request answers 200 when the input supplies a field.
  An update that sets only \<open>completed\<close> to true leaves \<open>title\<close> and \<open>description\<close> as
  they were.
\<close>

lemma update_task_frame:
  assumes "doc_get db tid = Some d" and "d ''user_id'' = Some (PStr uid)"
  shows "field_of (snd (update_task tid task uid db)) tid ''title'' =
       (case TaskUpdate.title task of None \<Rightarrow> d ''title'' | Some s \<Rightarrow> Some (PStr s))"
    and "field_of (snd (update_task tid task uid db)) tid ''description'' =
       (case TaskUpdate.description task of None \<Rightarrow> d ''description'' | Some s \<Rightarrow> Some (PStr s))"
    and "field_of (snd (update_task tid task uid db)) tid ''completed'' =
       (case TaskUpdate.completed task of None \<Rightarrow> d ''completed'' | Some b \<Rightarrow> Some (PBool b))"
    and "k \<noteq> ''title'' \<and> k \<noteq> ''description'' \<and> k \<noteq> ''completed'' \<Longrightarrow>
        field_of (snd (update_task tid task uid db)) tid k = d k"
    and "t \<noteq> tid \<Longrightarrow> doc_get (snd (update_task tid task uid db)) t = doc_get db t"
    and "map fst (snd (update_task tid task uid db)) = map fst db"
    and "data_to_update task \<noteq> [] \<Longrightarrow> http_status (fst (update_task tid task uid db)) = 200"
    and "field_of (snd (update_task tid only_completed uid db)) tid ''title'' = d ''title''"
    and "field_of (snd (update_task tid only_completed uid db)) tid ''description'' = d ''description''"
    and "field_of (snd (update_task tid only_completed uid db)) tid ''completed'' = Some (PBool True)"
proof -
  note f = field_of_update_task [OF assms]
  have own: "field_of db tid ''user_id'' = Some (PStr uid)"
    using assms by (simp add: field_of_def)
  show "field_of (snd (update_task tid task uid db)) tid ''title'' =
       (case TaskUpdate.title task of None \<Rightarrow> d ''title'' | Some s \<Rightarrow> Some (PStr s))"
    by (simp add: f map_of_data_to_update split: option.splits)
  show "field_of (snd (update_task tid task uid db)) tid ''description'' =
       (case TaskUpdate.description task of None \<Rightarrow> d ''description'' | Some s \<Rightarrow> Some (PStr s))"
    by (simp add: f map_of_data_to_update split: option.splits)
  show "field_of (snd (update_task tid task uid db)) tid ''completed'' =
       (case TaskUpdate.completed task of None \<Rightarrow> d ''completed'' | Some b \<Rightarrow> Some (PBool b))"
    by (simp add: f map_of_data_to_update split: option.splits)
  show "k \<noteq> ''title'' \<and> k \<noteq> ''description'' \<and> k \<noteq> ''completed'' \<Longrightarrow>
        field_of (snd (update_task tid task uid db)) tid k = d k"
    by (simp add: f map_of_data_to_update)
  show "t \<noteq> tid \<Longrightarrow> doc_get (snd (update_task tid task uid db)) t = doc_get db t"
    by (simp add: update_task_snd own merge_fields_other_records)
  show "map fst (snd (update_task tid task uid db)) = map fst db"
    by (simp add: update_task_snd keys_merge_fields)
  show "data_to_update task \<noteq> [] \<Longrightarrow> http_status (fst (update_task tid task uid db)) = 200"
    by (simp add: guard_owner(1) [OF assms])
  show "field_of (snd (update_task tid only_completed uid db)) tid ''title'' = d ''title''"
    by (simp add: f map_of_data_to_update only_completed_def)
  show "field_of (snd (update_task tid only_completed uid db)) tid ''description'' = d ''description''"
    by (simp add: f map_of_data_to_update only_completed_def)
  show "field_of (snd (update_task tid only_completed uid db)) tid ''completed'' = Some (PBool True)"
    by (simp add: f map_of_data_to_update only_completed_def)
qed

text \<open>
  Claim C2 says that \<open>update_task\<close> changes exactly the supplied fields, and that an
  update with an empty partial object leaves the record unchanged and is not an
  error.  The frame holds, as shown above.  The empty update does leave the record
  unchanged, but it is an error: \<open>data_to_update\<close> is then the empty dictionary, the
  handler passes it to \<open>task_ref.update\<close> without a test, the client raises
  \<open>ValueError\<close>, and the owner's request is answered with 500.
\<close>

theorem empty_update_is_an_error:
  "doc_get example_db ''t1'' = Some alice_task \<and>
   alice_task ''user_id'' = Some (PStr ''u1'') \<and>
   data_to_update empty_update = [] \<and>
   update_task ''t1'' empty_update ''u1'' example_db =
     (Inl (ValueError ''Cannot update with an empty document.''), example_db) \<and>
   http_status (fst (update_task ''t1'' empty_update ''u1'' example_db)) = 500"
  by (simp add: example_lookups example_updates
      guard_owner(1) [where d = alice_task and db = example_db and tid = "''t1''" and uid = "''u1''"])

subsection \<open>Completing a task\<close>

lemma data_to_update_only_completed:
  "map_of (data_to_update only_completed) = map_of [(''completed'', PBool True)]"
  by (rule ext) (simp add: map_of_data_to_update only_completed_def)

text \<open>
  Claim C5.  \<open>complete_task\<close> is \<open>update_task\<close> with the partial input that sets only
  \<open>completed\<close> to true: on every collection, task id and caller the two leave the same
  collection and answer with the same status.  For an existing task owned by the
  caller it sets \<open>completed\<close> to true, changes no other field and no other record,
  and answers 200 with a message and the task id.
\<close>

theorem complete_is_update_completed_true:
  "snd (complete_task tid uid db) = snd (update_task tid only_completed uid db) \<and>
   http_status (fst (complete_task tid uid db)) =
     http_status (fst (update_task tid only_completed uid db)) \<and>
   (doc_get db tid = Some d \<and> d ''user_id'' = Some (PStr uid) \<longrightarrow>
      fst (complete_task tid uid db) =
        Inr \<lparr>GeneralResModel.message = Some ''Task completed successfully'', task_id = Some tid\<rparr> \<and>
      http_status (fst (complete_task tid uid db)) = 200 \<and>
      field_of (snd (complete_task tid uid db)) tid ''completed'' = Some (PBool True) \<and>
      (\<forall>k. k \<noteq> ''completed'' \<longrightarrow> field_of (snd (complete_task tid uid db)) tid k = d k) \<and>
      (\<forall>t. t \<noteq> tid \<longrightarrow> doc_get (snd (complete_task tid uid db)) t = doc_get db t) \<and>
      map fst (snd (complete_task tid uid db)) = map fst db)"
proof (intro conjI impI)
  show "snd (complete_task tid uid db) = snd (update_task tid only_completed uid db)"
    by (simp add: complete_task_snd update_task_snd data_to_update_only_completed)
  show "http_status (fst (complete_task tid uid db)) =
     http_status (fst (update_task tid only_completed uid db))"
    by (simp add: complete_task_def update_task_def doc_update_def example_updates
        split: option.splits)
next
  assume "doc_get db tid = Some d \<and> d ''user_id'' = Some (PStr uid)"
  then have o: "doc_get db tid = Some d" "d ''user_id'' = Some (PStr uid)" by simp_all
  note g = guard_owner(3) [OF o]
  show "fst (complete_task tid uid db) =
        Inr \<lparr>GeneralResModel.message = Some ''Task completed successfully'', task_id = Some tid\<rparr>"
    by (simp add: g)
  show "http_status (fst (complete_task tid uid db)) = 200"
    by (simp add: g)
  show "field_of (snd (complete_task tid uid db)) tid ''completed'' = Some (PBool True)"
    by (simp add: g field_of_merge_fields o)
  show "\<forall>k. k \<noteq> ''completed'' \<longrightarrow> field_of (snd (complete_task tid uid db)) tid k = d k"
    by (simp add: g field_of_merge_fields) (simp add: field_of_def o)
  show "\<forall>t. t \<noteq> tid \<longrightarrow> doc_get (snd (complete_task tid uid db)) t = doc_get db t"
    by (simp add: g doc_get_merge_fields)
  show "map fst (snd (complete_task tid uid db)) = map fst db"
    by (simp add: g keys_merge_fields)
qed

theorem complete_is_update_completed_true_witness:
  "doc_get example_db ''t1'' = Some alice_task \<and> alice_task ''user_id'' = Some (PStr ''u1'') \<and>
   snd (complete_task ''t1'' ''u1'' example_db) = snd (update_task ''t1'' only_completed ''u1'' example_db) \<and>
   http_status (fst (complete_task ''t1'' ''u1'' example_db)) = 200 \<and>
   field_of example_db ''t1'' ''completed'' = Some (PBool False) \<and>
   field_of (snd (complete_task ''t1'' ''u1'' example_db)) ''t1'' ''completed'' = Some (PBool True) \<and>
   field_of (snd (complete_task ''t1'' ''u1'' example_db)) ''t1'' ''title'' = Some (PStr ''A'') \<and>
   doc_get (snd (complete_task ''t1'' ''u1'' example_db)) ''t2'' = Some bob_task"
proof -
  have o: "doc_get example_db ''t1'' = Some alice_task \<and> alice_task ''user_id'' = Some (PStr ''u1'')"
    by (simp add: example_lookups)
  note c = complete_is_update_completed_true [where db = example_db and tid = "''t1''"
      and d = alice_task and uid = "''u1''"]
  from c have same: "snd (complete_task ''t1'' ''u1'' example_db) =
      snd (update_task ''t1'' only_completed ''u1'' example_db)"
    by (rule conjunct1)
  from c o have ok: "http_status (fst (complete_task ''t1'' ''u1'' example_db)) = 200"
    and compl: "field_of (snd (complete_task ''t1'' ''u1'' example_db)) ''t1'' ''completed'' =
      Some (PBool True)"
    and frame: "\<forall>k. k \<noteq> ''completed'' \<longrightarrow>
      field_of (snd (complete_task ''t1'' ''u1'' example_db)) ''t1'' k = alice_task k"
    and others: "\<forall>t. t \<noteq> ''t1'' \<longrightarrow>
      doc_get (snd (complete_task ''t1'' ''u1'' example_db)) t = doc_get example_db t"
    by blast+
  have before: "field_of example_db ''t1'' ''completed'' = Some (PBool False)"
    by (simp add: field_of_def example_lookups) (simp add: alice_task_def)
  from frame have ttl: "field_of (snd (complete_task ''t1'' ''u1'' example_db)) ''t1'' ''title'' =
      Some (PStr ''A'')"
    by (simp add: alice_task_def)
  from others have bob: "doc_get (snd (complete_task ''t1'' ''u1'' example_db)) ''t2'' = Some bob_task"
    by (simp add: example_lookups)
  from o same ok before compl ttl bob show ?thesis by blast
qed

subsection \<open>Null in a partial update\<close>

lemma parse_null_absent:
  "TaskUpdate_parse (b\<lparr>body_title := Null\<rparr>) = TaskUpdate_parse (b\<lparr>body_title := Absent\<rparr>)"
  "TaskUpdate_parse (b\<lparr>body_description := Null\<rparr>) = TaskUpdate_parse (b\<lparr>body_description := Absent\<rparr>)"
  "TaskUpdate_parse (b\<lparr>body_completed := Null\<rparr>) = TaskUpdate_parse (b\<lparr>body_completed := Absent\<rparr>)"
  by (simp_all add: TaskUpdate_parse_def)

lemma data_to_update_no_None: "map_of (data_to_update task) k \<noteq> Some PNone"
  by (simp add: map_of_data_to_update)

lemma field_of_after_update:
  "field_of (snd (update_task tid task uid db)) t k =
     (if t = tid \<and> field_of db tid ''user_id'' = Some (PStr uid) \<and>
         map_of (data_to_update task) k \<noteq> None
      then map_of (data_to_update task) k else field_of db t k)"
  by (auto simp: update_task_snd field_of_merge_fields) (auto simp: field_of_def)

text \<open>
  Claim C9.  In a partial update a field sent as \<open>null\<close> is treated as a field that
  is absent: the request has the same response and the same effect, and the stored
  field keeps its value.  No update sets a field of a stored task to \<open>None\<close>: a field
  that is \<open>None\<close> after an update was \<open>None\<close> before it.
\<close>

theorem null_field_is_absent_field:
  "update_task tid (TaskUpdate_parse (b\<lparr>body_title := Null\<rparr>)) uid db =
     update_task tid (TaskUpdate_parse (b\<lparr>body_title := Absent\<rparr>)) uid db \<and>
   update_task tid (TaskUpdate_parse (b\<lparr>body_description := Null\<rparr>)) uid db =
     update_task tid (TaskUpdate_parse (b\<lparr>body_description := Absent\<rparr>)) uid db \<and>
   update_task tid (TaskUpdate_parse (b\<lparr>body_completed := Null\<rparr>)) uid db =
     update_task tid (TaskUpdate_parse (b\<lparr>body_completed := Absent\<rparr>)) uid db \<and>
   (body_title b = Null \<longrightarrow>
      field_of (snd (update_task tid (TaskUpdate_parse b) uid db)) t ''title'' = field_of db t ''title'') \<and>
   (body_description b = Null \<longrightarrow>
      field_of (snd (update_task tid (TaskUpdate_parse b) uid db)) t ''description'' =
        field_of db t ''description'') \<and>
   (body_completed b = Null \<longrightarrow>
      field_of (snd (update_task tid (TaskUpdate_parse b) uid db)) t ''completed'' =
        field_of db t ''completed'') \<and>
   (field_of (snd (update_task tid (TaskUpdate_parse b) uid db)) t k = Some PNone \<longrightarrow>
      field_of db t k = Some PNone)"
proof (intro conjI impI)
  show "update_task tid (TaskUpdate_parse (b\<lparr>body_title := Null\<rparr>)) uid db =
     update_task tid (TaskUpdate_parse (b\<lparr>body_title := Absent\<rparr>)) uid db"
    by (simp only: parse_null_absent)
  show "update_task tid (TaskUpdate_parse (b\<lparr>body_description := Null\<rparr>)) uid db =
     update_task tid (TaskUpdate_parse (b\<lparr>body_description := Absent\<rparr>)) uid db"
    by (simp only: parse_null_absent)
  show "update_task tid (TaskUpdate_parse (b\<lparr>body_completed := Null\<rparr>)) uid db =
     update_task tid (TaskUpdate_parse (b\<lparr>body_completed := Absent\<rparr>)) uid db"
    by (simp only: parse_null_absent)
next
  assume "body_title b = Null"
  then show "field_of (snd (update_task tid (TaskUpdate_parse b) uid db)) t ''title'' =
      field_of db t ''title''"
    by (simp add: field_of_after_update map_of_data_to_update TaskUpdate_parse_def)
next
  assume "body_description b = Null"
  then show "field_of (snd (update_task tid (TaskUpdate_parse b) uid db)) t ''description'' =
      field_of db t ''description''"
    by (simp add: field_of_after_update map_of_data_to_update TaskUpdate_parse_def)
next
  assume "body_completed b = Null"
  then show "field_of (snd (update_task tid (TaskUpdate_parse b) uid db)) t ''completed'' =
      field_of db t ''completed''"
    by (simp add: field_of_after_update map_of_data_to_update TaskUpdate_parse_def)
next
  assume "field_of (snd (update_task tid (TaskUpdate_parse b) uid db)) t k = Some PNone"
  then show "field_of db t k = Some PNone"
    using data_to_update_no_None [of "TaskUpdate_parse b" k]
    by (simp add: field_of_after_update split: if_splits)
qed

theorem null_field_is_absent_field_witness:
  "body_title null_title_body = Null \<and>
   field_of (snd (update_task ''t1'' (TaskUpdate_parse null_title_body) ''u1'' example_db)) ''t1'' ''title'' =
     Some (PStr ''A'') \<and>
   field_of (snd (update_task ''t1'' (TaskUpdate_parse null_title_body) ''u1'' example_db)) ''t1''
     ''description'' = Some (PStr ''F'')"
  using null_field_is_absent_field [where b = null_title_body and tid = "''t1''" and uid = "''u1''"
      and db = example_db and t = "''t1''" and k = "''title''"]
  by (simp add: null_title_body_def field_of_after_update map_of_data_to_update TaskUpdate_parse_def)
     (simp add: field_of_def example_lookups alice_task_def)

subsection \<open>Listing tasks\<close>

lemma task_loop_append:
  "task_loop tasks task_list = task_list @ map (\<lambda>(k, d). with_id k d) tasks"
  by (induction tasks task_list rule: task_loop.induct) simp_all

lemma get_user_tasks_filter:
  "get_user_tasks uid db =
     map (\<lambda>(k, d). with_id k d) (filter (\<lambda>(k, d). d ''user_id'' = Some (PStr uid)) db)"
  by (simp add: get_user_tasks_def where_user_id_def task_loop_append)

lemma get_user_tasks_owner:
  "t \<in> set (get_user_tasks uid db) \<Longrightarrow> t ''user_id'' = Some (PStr uid)"
  by (auto simp: get_user_tasks_filter with_id_def)

text \<open>
  Claim C3.  \<open>get_user_tasks\<close> called by a user returns exactly the stored tasks
  whose \<open>user_id\<close> is the caller's uid, each with its id added, in the order of the
  store.  So for distinct users A and B, no task in B's list has A's uid as its
  \<open>user_id\<close>, also right after A has created a task.
\<close>

theorem list_tasks_only_own:
  "get_user_tasks uid db =
     map (\<lambda>(k, d). with_id k d) (filter (\<lambda>(k, d). d ''user_id'' = Some (PStr uid)) db) \<and>
   (\<forall>t \<in> set (get_user_tasks uid db). t ''user_id'' = Some (PStr uid)) \<and>
   (other \<noteq> uid \<longrightarrow>
      (\<forall>t \<in> set (get_user_tasks uid db). t ''user_id'' \<noteq> Some (PStr other)) \<and>
      (\<forall>t \<in> set (get_user_tasks uid (snd (create_task new_id task other db))).
         t ''user_id'' \<noteq> Some (PStr other)))"
proof (intro conjI impI ballI)
  show "get_user_tasks uid db =
     map (\<lambda>(k, d). with_id k d) (filter (\<lambda>(k, d). d ''user_id'' = Some (PStr uid)) db)"
    by (rule get_user_tasks_filter)
next
  fix t assume "t \<in> set (get_user_tasks uid db)"
  then show "t ''user_id'' = Some (PStr uid)" by (rule get_user_tasks_owner)
next
  fix t assume "other \<noteq> uid" and "t \<in> set (get_user_tasks uid db)"
  then show "t ''user_id'' \<noteq> Some (PStr other)"
    using get_user_tasks_owner [of t uid db] by simp
next
  fix t assume "other \<noteq> uid"
    and "t \<in> set (get_user_tasks uid (snd (create_task new_id task other db)))"
  then show "t ''user_id'' \<noteq> Some (PStr other)"
    using get_user_tasks_owner [of t uid "snd (create_task new_id task other db)"] by simp
qed

lemma example_lists:
  "get_user_tasks ''u2'' example_db = [with_id ''t2'' bob_task]"
  "get_user_tasks ''u2'' (snd (create_task ''t3'' example_task ''u1'' example_db)) =
     [with_id ''t2'' bob_task]"
  "get_user_tasks ''u1'' (snd (create_task ''t3'' example_task ''u1'' example_db)) =
     [with_id ''t1'' alice_task,
      with_id ''t3'' ((map_of (Task_dict example_task))(''user_id'' \<mapsto> PStr ''u1''))]"
  by (simp_all add: get_user_tasks_filter example_db_def alice_task_def bob_task_def
      create_task_def doc_set_def)

theorem list_tasks_only_own_witness:
  "''u1'' \<noteq> ''u2'' \<and>
   get_user_tasks ''u2'' example_db = [with_id ''t2'' bob_task] \<and>
   with_id ''t2'' bob_task ''user_id'' = Some (PStr ''u2'') \<and>
   with_id ''t2'' bob_task ''user_id'' \<noteq> Some (PStr ''u1'') \<and>
   get_user_tasks ''u2'' (snd (create_task ''t3'' example_task ''u1'' example_db)) =
     [with_id ''t2'' bob_task]"
  using list_tasks_only_own [where uid = "''u2''" and db = example_db and other = "''u1''"
      and new_id = "''t3''" and task = example_task]
  by (simp add: example_lists)

subsection \<open>The owner of a record\<close>

lemma handle_user_id:
  "field_of (handle r db) tid ''user_id'' = field_of db tid ''user_id''"
proof (cases r)
  case (Update t task u)
  then show ?thesis
    by (simp add: field_of_after_update map_of_data_to_update)
next
  case (Complete t u)
  then show ?thesis
    by (simp add: complete_task_snd field_of_merge_fields)
qed

lemma run_user_id:
  "field_of (run rs db) tid ''user_id'' = field_of db tid ''user_id''"
  by (induction rs arbitrary: db) (simp_all add: handle_user_id)

lemma create_task_user_id:
  "field_of (snd (create_task new_id task uid db)) new_id ''user_id'' = Some (PStr uid)"
  by (simp add: create_task_def field_of_def doc_get_doc_set Task_dict_def)

text \<open>
  Claim C4.  The \<open>user_id\<close> of a stored task is set at creation to the uid of the
  caller that creates it, and no update or complete request changes it: after any
  sequence of update and complete requests, by any callers and on any task ids, the
  \<open>user_id\<close> of every record is what it was before the sequence, and that of a
  created record is still the creator's uid.
\<close>

theorem user_id_set_at_creation_only:
  "field_of (snd (create_task new_id task uid db)) new_id ''user_id'' = Some (PStr uid) \<and>
   field_of (run rs db) tid ''user_id'' = field_of db tid ''user_id'' \<and>
   field_of (run rs (snd (create_task new_id task uid db))) new_id ''user_id'' = Some (PStr uid)"
  by (simp add: run_user_id create_task_user_id)

subsection \<open>Login\<close>

lemma login_user_outcome:
  "login_user sign_in em pw =
     (case sign_in em pw of
        Inl e \<Rightarrow> Inl (HTTPException 401 ''Login failed'')
      | Inr user \<Rightarrow>
          (case user ''idToken'' of
             None \<Rightarrow> Inl (HTTPException 401 ''Login failed'')
           | Some tok \<Rightarrow> Inr [(''access_token'', tok), (''token_type'', ''bearer'')]))"
  by (simp add: login_user_def authenticate_user_def split: sum.splits option.splits)

lemma login_user_failed:
  "http_status (login_user sign_in em pw) \<noteq> 200 \<Longrightarrow>
     login_user sign_in em pw = Inl (HTTPException 401 ''Login failed'')"
  by (simp add: login_user_outcome split: sum.splits option.splits)

text \<open>
  Claim C7.  Every login attempt that fails gets the same response, status 401 with
  the detail \<open>Login failed\<close>, whatever the provider raised: an exception of the
  provider of any kind (unknown address, wrong password, failure of the service)
  ends in that response, and any two failing attempts have identical responses.
\<close>

theorem login_failure_uniform:
  "(sign_in em pw = Inl err \<longrightarrow>
      login_user sign_in em pw = Inl (HTTPException 401 ''Login failed'')) \<and>
   (http_status (login_user sign_in em pw) \<noteq> 200 \<longrightarrow>
      login_user sign_in em pw = Inl (HTTPException 401 ''Login failed'') \<and>
      http_status (login_user sign_in em pw) = 401) \<and>
   (http_status (login_user sign_in em pw) \<noteq> 200 \<and>
    http_status (login_user sign_in' em' pw') \<noteq> 200 \<longrightarrow>
      login_user sign_in em pw = login_user sign_in' em' pw')"
proof (intro conjI impI)
  assume "sign_in em pw = Inl err"
  then show "login_user sign_in em pw = Inl (HTTPException 401 ''Login failed'')"
    by (simp add: login_user_outcome)
next
  assume "http_status (login_user sign_in em pw) \<noteq> 200"
  then have f: "login_user sign_in em pw = Inl (HTTPException 401 ''Login failed'')"
    by (rule login_user_failed)
  show "login_user sign_in em pw = Inl (HTTPException 401 ''Login failed'')"
    by (rule f)
  show "http_status (login_user sign_in em pw) = 401"
    by (simp add: f)
next
  assume "http_status (login_user sign_in em pw) \<noteq> 200 \<and>
    http_status (login_user sign_in' em' pw') \<noteq> 200"
  then show "login_user sign_in em pw = login_user sign_in' em' pw'"
    by (simp add: login_user_failed)
qed

lemma example_logins:
  "example_sign_in ''x@y.z'' ''secret1'' = Inl ''EMAIL_NOT_FOUND''"
  "example_sign_in ''a@b.c'' ''nope'' = Inl ''INVALID_PASSWORD''"
  "login_user example_sign_in ''a@b.c'' ''secret1'' =
     Inr [(''access_token'', ''tok1''), (''token_type'', ''bearer'')]"
  by (simp_all add: example_sign_in_def login_user_outcome)

theorem login_failure_uniform_witness:
  "example_sign_in ''x@y.z'' ''secret1'' = Inl ''EMAIL_NOT_FOUND'' \<and>
   example_sign_in ''a@b.c'' ''nope'' = Inl ''INVALID_PASSWORD'' \<and>
   http_status (login_user example_sign_in ''x@y.z'' ''secret1'') \<noteq> 200 \<and>
   http_status (login_user example_sign_in ''a@b.c'' ''nope'') \<noteq> 200 \<and>
   login_user example_sign_in ''x@y.z'' ''secret1'' = Inl (HTTPException 401 ''Login failed'') \<and>
   login_user example_sign_in ''x@y.z'' ''secret1'' = login_user example_sign_in ''a@b.c'' ''nope''"
proof -
  note u = login_failure_uniform [where sign_in = example_sign_in and em = "''x@y.z''"
      and pw = "''secret1''" and err = "''EMAIL_NOT_FOUND''" and sign_in' = example_sign_in
      and em' = "''a@b.c''" and pw' = "''nope''"]
  note v = login_failure_uniform [where sign_in = example_sign_in and em = "''a@b.c''"
      and pw = "''nope''" and err = "''INVALID_PASSWORD''"]
  have a: "example_sign_in ''x@y.z'' ''secret1'' = Inl ''EMAIL_NOT_FOUND''"
    and b: "example_sign_in ''a@b.c'' ''nope'' = Inl ''INVALID_PASSWORD''"
    by (simp_all add: example_logins)
  from u a have l1: "login_user example_sign_in ''x@y.z'' ''secret1'' =
      Inl (HTTPException 401 ''Login failed'')"
    by blast
  from v b have l2: "login_user example_sign_in ''a@b.c'' ''nope'' =
      Inl (HTTPException 401 ''Login failed'')"
    by blast
  have s1: "http_status (login_user example_sign_in ''x@y.z'' ''secret1'') \<noteq> 200"
    by (simp add: l1)
  have s2: "http_status (login_user example_sign_in ''a@b.c'' ''nope'') \<noteq> 200"
    by (simp add: l2)
  from u s1 s2 have same: "login_user example_sign_in ''x@y.z'' ''secret1'' =
      login_user example_sign_in ''a@b.c'' ''nope''"
    by blast
  from a b s1 s2 l1 same show ?thesis by blast
qed

subsection \<open>Registration\<close>

lemma register_user_outcome:
  "register_user auth_create_user user =
     (case auth_create_user (email user) (password user) of
        Inl e \<Rightarrow> Inl (HTTPException 400 e)
      | Inr uid \<Rightarrow>
          Inr \<lparr>RegResModel.message = Some ''User registered successfully'', user_uid = Some uid\<rparr>)"
  by (simp add: register_user_def create_user_def)

text \<open>
  Claim C8, as stated: every failing registration request, a malformed email address
  included, fails with status 400.  A request whose email has no \<open>@\<close> does not
  validate against \<open>UserRegistration\<close>, and it fails with 422, not 400.
\<close>

theorem malformed_email_not_400:
  "http_status (post_register any_address example_create_user malformed_registration) \<noteq> 200 \<and>
   http_status (post_register any_address example_create_user malformed_registration) \<noteq> 400 \<and>
   http_status (post_register any_address example_create_user malformed_registration) = 422"
  by (simp add: post_register_def EmailStr_def malformed_registration_def)

text \<open>
  Claim C8, amended.  Every registration request whose body validates and whose
  account creation raises fails with status 400, the detail being the text of the
  exception; the handler \<open>register_user\<close> never fails with another status.  A request
  whose email is not accepted by \<open>EmailStr\<close> is rejected before the handler runs,
  with status 422.
\<close>

theorem register_failure_status:
  "(EmailStr accepts (email body) \<and> auth_create_user (email body) (password body) = Inl e \<longrightarrow>
      post_register accepts auth_create_user body = Inl (HTTPException 400 e) \<and>
      http_status (post_register accepts auth_create_user body) = 400) \<and>
   (EmailStr accepts (email body) \<and>
    http_status (post_register accepts auth_create_user body) \<noteq> 200 \<longrightarrow>
      http_status (post_register accepts auth_create_user body) = 400) \<and>
   (http_status (register_user auth_create_user body) \<noteq> 200 \<longrightarrow>
      http_status (register_user auth_create_user body) = 400) \<and>
   (\<not> EmailStr accepts (email body) \<longrightarrow>
      http_status (post_register accepts auth_create_user body) = 422)"
proof (intro conjI impI)
  assume a: "EmailStr accepts (email body) \<and> auth_create_user (email body) (password body) = Inl e"
  then show "post_register accepts auth_create_user body = Inl (HTTPException 400 e)"
    by (simp add: post_register_def register_user_outcome)
  from a show "http_status (post_register accepts auth_create_user body) = 400"
    by (simp add: post_register_def register_user_outcome)
next
  assume "EmailStr accepts (email body) \<and>
    http_status (post_register accepts auth_create_user body) \<noteq> 200"
  then show "http_status (post_register accepts auth_create_user body) = 400"
    by (cases "auth_create_user (email body) (password body)")
       (auto simp: post_register_def register_user_outcome)
next
  assume "http_status (register_user auth_create_user body) \<noteq> 200"
  then show "http_status (register_user auth_create_user body) = 400"
    by (cases "auth_create_user (email body) (password body)")
       (simp_all add: register_user_outcome)
next
  assume "\<not> EmailStr accepts (email body)"
  then show "http_status (post_register accepts auth_create_user body) = 422"
    by (simp add: post_register_def)
qed

theorem register_failure_status_witness:
  "EmailStr any_address (email taken_registration) \<and>
   example_create_user (email taken_registration) (password taken_registration) = Inl ''EMAIL_EXISTS'' \<and>
   post_register any_address example_create_user taken_registration =
     Inl (HTTPException 400 ''EMAIL_EXISTS'') \<and>
   http_status (register_user example_create_user taken_registration) \<noteq> 200 \<and>
   http_status (register_user example_create_user taken_registration) = 400 \<and>
   \<not> EmailStr any_address (email malformed_registration) \<and>
   http_status (post_register any_address example_create_user malformed_registration) = 422"
proof -
  note t = register_failure_status [where accepts = any_address
      and auth_create_user = example_create_user and body = taken_registration
      and e = "''EMAIL_EXISTS''"]
  note m = register_failure_status [where accepts = any_address
      and auth_create_user = example_create_user and body = malformed_registration]
  have v: "EmailStr any_address (email taken_registration)"
    by (simp add: EmailStr_def any_address_def taken_registration_def)
  have c: "example_create_user (email taken_registration) (password taken_registration) =
      Inl ''EMAIL_EXISTS''"
    by (simp add: example_create_user_def taken_registration_def)
  have n: "\<not> EmailStr any_address (email malformed_registration)"
    by (simp add: EmailStr_def malformed_registration_def)
  from t v c have p: "post_register any_address example_create_user taken_registration =
      Inl (HTTPException 400 ''EMAIL_EXISTS'')"
    by blast
  have f: "http_status (register_user example_create_user taken_registration) \<noteq> 200"
    by (simp add: register_user_outcome c)
  from t f have r: "http_status (register_user example_create_user taken_registration) = 400"
    by blast
  from m n have q: "http_status (post_register any_address example_create_user
      malformed_registration) = 422"
    by blast
  from v c p f r n q show ?thesis by blast
qed

end
